theory Spec2Isabelle
  imports Main
begin

section \<open>Data model of \<open>src/index.tsx\<close>\<close>

text \<open>
  The parameter schema is the union \<open>StringParam | NumberParam | SelectParam\<close>; every
  variant carries the fields of \<open>BaseParam\<close> (\<open>id\<close>, \<open>name\<close>). Ids are integers, so that
  \<open>===\<close> on them is equality and distinct ids are distinct keys of a \<open>Record\<close>. The
  optional bounds of a number parameter and the options of a select parameter are
  carried along; only the built-in renderers read them.
\<close>

datatype Param =
    StringParam (param_id: int) (param_name: string)
  | NumberParam (param_id: int) (param_name: string) "int option" "int option"
  | SelectParam (param_id: int) (param_name: string) "string list"

text \<open>The discriminant \<open>param.type\<close>.\<close>

fun param_type :: "Param \<Rightarrow> string" where
  "param_type (StringParam _ _) = ''string''"
| "param_type (NumberParam _ _ _ _) = ''number''"
| "param_type (SelectParam _ _ _) = ''select''"

record ParamValue =
  paramId :: int
  "value" :: string

record Color =
  color_id :: int
  color_name :: string
  hex :: string

record Model =
  paramValues :: "ParamValue list"
  colors :: "Color list"

datatype Action =
    CHANGE int string
  | RESET "ParamValue list"

type_synonym State = "ParamValue list"

section \<open>The reducer\<close>

text \<open>
  \<^verbatim>\<open>case "CHANGE": return state.map((pv) =>
      pv.paramId === action.paramId ? { ...pv, value: action.value } : pv);
  case "RESET":  return [...action.initial];\<close>
\<close>

fun reducer :: "State \<Rightarrow> Action \<Rightarrow> State" where
  "reducer state (CHANGE pid v) =
     map (\<lambda>pv. if paramId pv = pid then pv\<lparr>value := v\<rparr> else pv) state"
| "reducer state (RESET initial) = initial"

section \<open>The body of \<open>ParamEditorInner\<close>\<close>

text \<open>
  \<^verbatim>\<open>const initialValues = params.map((param) => {
    const found = model.paramValues.find((pv) => pv.paramId === param.id);
    return { paramId: param.id, value: found ? found.value : "" };
  });\<close>
  The expression stands in the function body, so it is evaluated at every render, from
  the props of that render.
\<close>

definition initialValues :: "Param list \<Rightarrow> Model \<Rightarrow> ParamValue list" where
  "initialValues params model =
     map (\<lambda>param.
            let found = List.find (\<lambda>pv. paramId pv = param_id param) (paramValues model)
            in \<lparr>paramId = param_id param,
                value = (case found of Some f \<Rightarrow> value f | None \<Rightarrow> [])\<rparr>)
         params"

text \<open>
  \<^verbatim>\<open>const errs: Record<number, string> = {};
  values.forEach((pv) => { if (!pv.value) errs[pv.paramId] = "Required field"; });
  setErrors(errs);
  return Object.keys(errs).length === 0;\<close>
  A string is falsy exactly when it is empty. The function returns the map it hands to
  \<open>setErrors\<close> together with its boolean result.
\<close>

definition validate :: "State \<Rightarrow> (int \<rightharpoonup> string) \<times> bool" where
  "validate vals =
     (let errs = fold (\<lambda>pv errs. if value pv = [] then errs(paramId pv \<mapsto> ''Required field'')
                                   else errs)
                      vals Map.empty
      in (errs, dom errs = {}))"

text \<open>
  The object built by \<open>useImperativeHandle\<close>: two closures over the variables
  \<open>values\<close>, \<open>model\<close> and \<open>initialValues\<close> of the render that built it.
\<close>

record ParamEditorHandle =
  closure_values :: State
  closure_model :: Model
  closure_initialValues :: "ParamValue list"

text \<open>\<^verbatim>\<open>getModel: () => ({ paramValues: values, colors: model.colors })\<close>\<close>

definition getModel :: "ParamEditorHandle \<Rightarrow> Model" where
  "getModel h = \<lparr>paramValues = closure_values h, colors = colors (closure_model h)\<rparr>"

text \<open>
  A mounted editor: the props of the last render, the state of \<open>useReducer\<close>, the state
  of \<open>useState\<close> for the errors, and the handle the host holds through the ref.
\<close>

record Session =
  props_params :: "Param list"
  props_model :: Model
  values_state :: State
  errors_state :: "int \<rightharpoonup> string"
  handle :: ParamEditorHandle

text \<open>
  The first render: \<open>useReducer(reducer, initialValues)\<close> takes its second argument as
  the state, the errors start empty, and the handle is built.
\<close>

definition mount :: "Param list \<Rightarrow> Model \<Rightarrow> Session" where
  "mount params model =
     (let iv = initialValues params model
      in \<lparr>props_params = params, props_model = model, values_state = iv,
          errors_state = Map.empty,
          handle = \<lparr>closure_values = iv, closure_model = model,
                    closure_initialValues = iv\<rparr>\<rparr>)"

text \<open>
  A later render. \<open>useReducer\<close> ignores its second argument now. The handle is rebuilt
  from the variables of this render when one of the dependencies \<open>[values, model.colors]\<close>
  is a different object than at the previous render, and kept otherwise.
\<close>

definition rerender :: "bool \<Rightarrow> Session \<Rightarrow> Session" where
  "rerender deps_changed s =
     (if deps_changed
      then s\<lparr>handle := \<lparr>closure_values = values_state s, closure_model = props_model s,
                         closure_initialValues =
                           initialValues (props_params s) (props_model s)\<rparr>\<rparr>
      else s)"

text \<open>
  What can happen to a mounted editor.
  \<^item> \<open>Change paramId v\<close>: a control calls \<open>onChange(v)\<close>, that is \<open>handleChange(paramId, v)\<close>.
  \<^item> \<open>ResetButton\<close>: a click on the Reset button.
  \<^item> \<open>HandleReset\<close>: the host calls \<open>reset()\<close> on the handle.
  \<^item> \<open>Validate\<close>: a click on the Validate button, which calls \<open>validate()\<close>.
  \<^item> \<open>SetProps params model same\<close>: the host renders the editor again with these props;
    \<open>same\<close> tells whether \<open>model.colors\<close> is the very array object of the previous
    render (hook dependencies are compared by identity).

  Events are handled one at a time: the state update of an event is applied and the
  component is rendered again before the next event. Both transitions of the reducer
  return a fresh array, so after a dispatch the dependency \<open>values\<close> has changed and the
  handle is rebuilt; \<open>validate\<close> sets the errors only, so the handle is kept.
\<close>

datatype Event =
    Change int string
  | ResetButton
  | HandleReset
  | Validate
  | SetProps "Param list" Model bool

fun step :: "Session \<Rightarrow> Event \<Rightarrow> Session" where
  "step s (Change pid v) =
     rerender True
       (s\<lparr>values_state := reducer (values_state s) (CHANGE pid v),
          errors_state := (errors_state s)(pid := None)\<rparr>)"
| "step s ResetButton =
     rerender True
       (s\<lparr>values_state :=
            reducer (values_state s)
              (RESET (initialValues (props_params s) (props_model s)))\<rparr>)"
| "step s HandleReset =
     rerender True
       (s\<lparr>values_state :=
            reducer (values_state s) (RESET (closure_initialValues (handle s)))\<rparr>)"
| "step s Validate =
     rerender False (s\<lparr>errors_state := fst (validate (values_state s))\<rparr>)"
| "step s (SetProps params model same) =
     rerender (\<not> same) (s\<lparr>props_params := params, props_model := model\<rparr>)"

fun run :: "Session \<Rightarrow> Event list \<Rightarrow> Session" where
  "run s [] = s"
| "run s (e # es) = run (step s e) es"

text \<open>The props a session has after a history: those of the last \<open>SetProps\<close>, if any.\<close>

fun latest_params :: "Param list \<Rightarrow> Event list \<Rightarrow> Param list" where
  "latest_params ps [] = ps"
| "latest_params ps (SetProps ps' m same # es) = latest_params ps' es"
| "latest_params ps (_ # es) = latest_params ps es"

fun latest_model :: "Model \<Rightarrow> Event list \<Rightarrow> Model" where
  "latest_model m [] = m"
| "latest_model m (SetProps ps m' same # es) = latest_model m' es"
| "latest_model m (_ # es) = latest_model m es"

text \<open>A history in which the host never renders the editor again.\<close>

fun props_unchanged :: "Event list \<Rightarrow> bool" where
  "props_unchanged [] = True"
| "props_unchanged (SetProps _ _ _ # es) = False"
| "props_unchanged (_ # es) = props_unchanged es"

text \<open>
  The host treats the arrays it passes as immutable: when it passes the same array object
  for \<open>model.colors\<close> again, the array has the contents it had.
\<close>

fun host_consistent :: "Model \<Rightarrow> Event list \<Rightarrow> bool" where
  "host_consistent m [] = True"
| "host_consistent m (SetProps ps m' same # es) =
     ((if same then colors m' = colors m else True) \<and> host_consistent m' es)"
| "host_consistent m (_ # es) = host_consistent m es"

text \<open>A history without a click on the Validate button.\<close>

fun no_validate :: "Event list \<Rightarrow> bool" where
  "no_validate [] = True"
| "no_validate (Validate # es) = False"
| "no_validate (_ # es) = no_validate es"

text \<open>
  The events after which the handle is rebuilt: every dispatch, and a render whose
  \<open>model.colors\<close> is another array object.
\<close>

fun rebuilds_handle :: "Event \<Rightarrow> bool" where
  "rebuilds_handle (Change _ _) = True"
| "rebuilds_handle ResetButton = True"
| "rebuilds_handle HandleReset = True"
| "rebuilds_handle Validate = False"
| "rebuilds_handle (SetProps _ _ same) = (\<not> same)"

text \<open>
  The handle is up to date with the props: its \<open>reset\<close> closes over the initial values
  of the current props.
\<close>

definition handle_fresh :: "Session \<Rightarrow> bool" where
  "handle_fresh s \<longleftrightarrow>
     closure_initialValues (handle s) = initialValues (props_params s) (props_model s)"

section \<open>The renderer registry\<close>

text \<open>
  A renderer is one of the three built-in components or a component of the caller.
  \<^verbatim>\<open>const useRenders = renderers
    ? { ...defaultRenderers, ...renderers }
    : defaultRenderers;
  ...
  const Renderer = useRenders[param.type];\<close>
\<close>

datatype 'c Renderer =
    StringParamEditor
  | NumberParamEditor
  | SelectParamEditor
  | CallerRenderer 'c

definition defaultRenderers :: "string \<rightharpoonup> 'c Renderer" where
  "defaultRenderers =
     [''string'' \<mapsto> StringParamEditor,
      ''number'' \<mapsto> NumberParamEditor,
      ''select'' \<mapsto> SelectParamEditor]"

definition useRenders :: "(string \<rightharpoonup> 'c Renderer) option \<Rightarrow> (string \<rightharpoonup> 'c Renderer)" where
  "useRenders renderers =
     (case renderers of
        Some r \<Rightarrow> defaultRenderers ++ r
      | None \<Rightarrow> defaultRenderers)"

definition dispatch_renderer :: "(string \<rightharpoonup> 'c Renderer) option \<Rightarrow> Param \<Rightarrow> 'c Renderer option" where
  "dispatch_renderer renderers param = useRenders renderers (param_type param)"

section \<open>Auxiliary facts\<close>

lemma rerender_fields [simp]:
  "values_state (rerender b s) = values_state s"
  "errors_state (rerender b s) = errors_state s"
  "props_params (rerender b s) = props_params s"
  "props_model (rerender b s) = props_model s"
  by (simp_all add: rerender_def)

lemma handle_rerender:
  "handle (rerender True s) =
     \<lparr>closure_values = values_state s, closure_model = props_model s,
      closure_initialValues = initialValues (props_params s) (props_model s)\<rparr>"
  "handle (rerender False s) = handle s"
  by (simp_all add: rerender_def)

lemma run_append: "run s (xs @ ys) = run (run s xs) ys"
  by (induction xs arbitrary: s) simp_all

lemma props_params_run: "props_params (run s evs) = latest_params (props_params s) evs"
proof (induction evs arbitrary: s)
  case Nil
  show ?case by simp
next
  case (Cons e es)
  show ?case by (cases e) (simp_all add: Cons.IH)
qed

lemma props_model_run: "props_model (run s evs) = latest_model (props_model s) evs"
proof (induction evs arbitrary: s)
  case Nil
  show ?case by simp
next
  case (Cons e es)
  show ?case by (cases e) (simp_all add: Cons.IH)
qed

lemma handle_fresh_mount: "handle_fresh (mount P M)"
  by (simp add: handle_fresh_def mount_def Let_def)

lemma handle_fresh_step:
  "handle_fresh s \<Longrightarrow> props_unchanged [e] \<Longrightarrow> handle_fresh (step s e)"
  by (cases e) (simp_all add: handle_fresh_def rerender_def)

lemma handle_fresh_run:
  "handle_fresh s \<Longrightarrow> props_unchanged evs \<Longrightarrow> handle_fresh (run s evs)"
proof (induction evs arbitrary: s)
  case Nil
  then show ?case by simp
next
  case (Cons e es)
  from Cons.prems(2) have e: "props_unchanged [e]" and es: "props_unchanged es"
    by (cases e; simp)+
  from handle_fresh_step[OF Cons.prems(1) e] Cons.IH es show ?case by simp
qed

lemma latest_unchanged:
  "props_unchanged evs \<Longrightarrow> latest_params P evs = P \<and> latest_model M evs = M"
proof (induction evs)
  case Nil
  show ?case by simp
next
  case (Cons e es)
  then show ?case by (cases e) simp_all
qed

lemma mount_props: "props_params (mount P M) = P" "props_model (mount P M) = M"
  "values_state (mount P M) = initialValues P M"
  by (simp_all add: mount_def Let_def)

lemma reset_after_unchanged:
  assumes "props_unchanged evs"
  shows "closure_initialValues (handle (run (mount P M) evs)) = initialValues P M"
proof -
  have "handle_fresh (run (mount P M) evs)"
    using handle_fresh_mount assms by (rule handle_fresh_run)
  then show ?thesis
    by (simp add: handle_fresh_def props_params_run props_model_run mount_props
        latest_unchanged[OF assms])
qed

lemma handle_fresh_rebuilt: "rebuilds_handle e \<Longrightarrow> handle_fresh (step s e)"
  by (cases e) (simp_all add: handle_fresh_def rerender_def)

lemma run_snoc: "run s (evs @ [e]) = step (run s evs) e"
  by (simp add: run_append)

lemma handle_fresh_last:
  assumes "evs \<noteq> []" and "rebuilds_handle (last evs)"
  shows "handle_fresh (run s evs)"
proof -
  from assms(1) obtain es e where evs: "evs = es @ [e]"
    by (metis append_butlast_last_id)
  with assms(2) have "rebuilds_handle e" by simp
  then show ?thesis unfolding evs run_snoc by (rule handle_fresh_rebuilt)
qed

lemma find_first_match:
  "\<forall>q\<in>set pre. \<not> Q q \<Longrightarrow> Q x \<Longrightarrow> List.find Q (pre @ x # post) = Some x"
  by (induction pre) simp_all

lemma length_initialValues: "length (initialValues P M) = length P"
  by (simp add: initialValues_def)

lemma ids_initialValues: "map paramId (initialValues P M) = map param_id P"
  by (simp add: initialValues_def Let_def)

lemma value_initialValues:
  "i < length P \<Longrightarrow>
   value (initialValues P M ! i) =
     (case List.find (\<lambda>pv. paramId pv = param_id (P ! i)) (paramValues M) of
        Some f \<Rightarrow> value f | None \<Rightarrow> [])"
  by (simp add: initialValues_def Let_def)

lemma reducer_CHANGE_length: "length (reducer st (CHANGE pid v)) = length st"
  by simp

lemma reducer_CHANGE_ids: "map paramId (reducer st (CHANGE pid v)) = map paramId st"
  by simp

lemma reducer_CHANGE_nth:
  "i < length st \<Longrightarrow>
   reducer st (CHANGE pid v) ! i =
     (if paramId (st ! i) = pid then (st ! i)\<lparr>value := v\<rparr> else st ! i)"
  by simp

lemma getModel_after_dispatch:
  "paramValues (getModel (handle (rerender True s))) = values_state s"
  by (simp add: getModel_def handle_rerender)

lemma reducer_CHANGE_absent:
  "\<forall>pv\<in>set st. paramId pv \<noteq> pid \<Longrightarrow> reducer st (CHANGE pid v) = st"
  by (simp add: map_idI)

lemma validate_fold:
  "fold (\<lambda>pv errs. if value pv = [] then errs(paramId pv \<mapsto> ''Required field'') else errs)
        vals m k
   = (if \<exists>pv\<in>set vals. paramId pv = k \<and> value pv = [] then Some ''Required field''
      else m k)"
  by (induction vals arbitrary: m) auto

lemma validate_lookup:
  "fst (validate vals) k
   = (if \<exists>pv\<in>set vals. paramId pv = k \<and> value pv = [] then Some ''Required field''
      else None)"
  by (simp add: validate_def Let_def validate_fold)

lemma validate_dom:
  "dom (fst (validate vals)) = {paramId pv | pv. pv \<in> set vals \<and> value pv = []}"
  by (auto simp: dom_def validate_lookup)

lemma validate_result: "snd (validate vals) = (dom (fst (validate vals)) = {})"
  by (simp add: validate_def Let_def)

lemma errors_step_None:
  "errors_state s k = None \<Longrightarrow> no_validate [e] \<Longrightarrow> errors_state (step s e) k = None"
  by (cases e) simp_all

lemma errors_run_None:
  "errors_state s k = None \<Longrightarrow> no_validate evs \<Longrightarrow> errors_state (run s evs) k = None"
proof (induction evs arbitrary: s)
  case Nil
  then show ?case by simp
next
  case (Cons e es)
  from Cons.prems(2) have e: "no_validate [e]" and es: "no_validate es"
    by (cases e; simp)+
  from errors_step_None[OF Cons.prems(1) e] Cons.IH es show ?case by simp
qed

lemma validate_after_empty:
  assumes "pid \<in> paramId ` set st"
  shows "fst (validate (reducer st (CHANGE pid []))) pid = Some ''Required field''"
proof -
  from assms obtain pv where "pv \<in> set st" "paramId pv = pid" by auto
  then have "pv\<lparr>value := []\<rparr> \<in> set (reducer st (CHANGE pid []))"
    by (auto simp: image_iff intro!: bexI[of _ pv])
  moreover have "paramId (pv\<lparr>value := []\<rparr>) = pid \<and> value (pv\<lparr>value := []\<rparr>) = []"
    using \<open>paramId pv = pid\<close> by simp
  ultimately
  have "\<exists>q\<in>set (reducer st (CHANGE pid [])). paramId q = pid \<and> value q = []"
    by blast
  then show ?thesis by (simp only: validate_lookup if_True)
qed

lemma handle_colors_step:
  assumes "colors (closure_model (handle s)) = colors (props_model s)"
    and "host_consistent (props_model s) [e]"
  shows "colors (closure_model (handle (step s e))) = colors (props_model (step s e))"
  using assms by (cases e) (simp_all add: rerender_def)

lemma host_consistent_Cons:
  "host_consistent m (e # es) \<Longrightarrow>
   host_consistent m [e] \<and> host_consistent (latest_model m [e]) es"
  by (cases e) simp_all

lemma handle_colors_run:
  assumes "colors (closure_model (handle s)) = colors (props_model s)"
    and "host_consistent (props_model s) evs"
  shows "colors (closure_model (handle (run s evs))) = colors (props_model (run s evs))"
  using assms
proof (induction evs arbitrary: s)
  case Nil
  then show ?case by simp
next
  case (Cons e es)
  from host_consistent_Cons[OF Cons.prems(2)]
  have e: "host_consistent (props_model s) [e]"
    and es: "host_consistent (latest_model (props_model s) [e]) es"
    by simp_all
  have model: "props_model (step s e) = latest_model (props_model s) [e]"
    using props_model_run[of s "[e]"] by simp
  have "colors (closure_model (handle (step s e))) = colors (props_model (step s e))"
    using Cons.prems(1) e by (rule handle_colors_step)
  moreover have "host_consistent (props_model (step s e)) es"
    using es model by simp
  ultimately show ?case
    using Cons.IH[of "step s e"] by simp
qed

lemma props_unchanged_consistent: "props_unchanged evs \<Longrightarrow> host_consistent m evs"
proof (induction evs)
  case Nil
  show ?case by simp
next
  case (Cons e es)
  then show ?case by (cases e) simp_all
qed

section \<open>The claims\<close>

subsection \<open>C1: which initial values Reset uses\<close>

text \<open>
  Claim C1 says that the initial values used by Reset and by \<open>reset()\<close> are captured once
  at mount and never follow a later Model. The code computes \<open>initialValues\<close> in the
  body of the component, at every render, from the props of that render; no hook keeps
  the value of the first render. What holds instead (C1 as amended): the Reset button
  returns the working values to the initial values of the props most recently supplied;
  so does \<open>reset()\<close> on the handle whenever the last event rebuilt the handle (every
  dispatch does, and every render with another \<open>model.colors\<close> array); and when the host
  never supplies props again, \<open>reset()\<close> returns them to the values derived from the
  schema and Model of construction.
\<close>

theorem C1_reset_follows_props:
  "values_state (step (run (mount P M) evs) ResetButton) =
     initialValues (latest_params P evs) (latest_model M evs)
   \<and> (evs \<noteq> [] \<and> rebuilds_handle (last evs) \<longrightarrow>
        values_state (step (run (mount P M) evs) HandleReset) =
          initialValues (latest_params P evs) (latest_model M evs))
   \<and> (props_unchanged evs \<longrightarrow>
        values_state (step (run (mount P M) evs) HandleReset) = initialValues P M)"
proof (intro conjI impI)
  show "values_state (step (run (mount P M) evs) ResetButton) =
     initialValues (latest_params P evs) (latest_model M evs)"
    by (simp add: props_params_run props_model_run mount_props)
next
  assume "evs \<noteq> [] \<and> rebuilds_handle (last evs)"
  then have "handle_fresh (run (mount P M) evs)"
    by (simp add: handle_fresh_last)
  then show "values_state (step (run (mount P M) evs) HandleReset) =
          initialValues (latest_params P evs) (latest_model M evs)"
    by (simp add: handle_fresh_def props_params_run props_model_run mount_props)
next
  assume "props_unchanged evs"
  then show "values_state (step (run (mount P M) evs) HandleReset) = initialValues P M"
    by (simp add: reset_after_unchanged)
qed

theorem C1_reset_follows_props_witness:
  "rebuilds_handle (last [SetProps [StringParam 1 ''Label'']
                      \<lparr>paramValues = [\<lparr>paramId = 1, value = ''bye''\<rparr>], colors = []\<rparr> True,
                    Change 1 ''x''])
   \<and> values_state
       (step (run (mount [StringParam 1 ''Label'']
                     \<lparr>paramValues = [\<lparr>paramId = 1, value = ''hi''\<rparr>], colors = []\<rparr>)
                [SetProps [StringParam 1 ''Label'']
                   \<lparr>paramValues = [\<lparr>paramId = 1, value = ''bye''\<rparr>], colors = []\<rparr> True,
                 Change 1 ''x''])
          HandleReset)
     = [\<lparr>paramId = 1, value = ''bye''\<rparr>]
   \<and> props_unchanged [Change 1 ''x'', Validate]
   \<and> values_state
       (step (run (mount [StringParam 1 ''Label'']
                     \<lparr>paramValues = [\<lparr>paramId = 1, value = ''hi''\<rparr>], colors = []\<rparr>)
                [Change 1 ''x'', Validate])
          HandleReset)
     = [\<lparr>paramId = 1, value = ''hi''\<rparr>]"
  using C1_reset_follows_props
          [of "[StringParam 1 ''Label'']"
              "\<lparr>paramValues = [\<lparr>paramId = 1, value = ''hi''\<rparr>], colors = []\<rparr>"
              "[SetProps [StringParam 1 ''Label'']
                   \<lparr>paramValues = [\<lparr>paramId = 1, value = ''bye''\<rparr>], colors = []\<rparr> True,
                 Change 1 ''x'']"]
        C1_reset_follows_props
          [of "[StringParam 1 ''Label'']"
              "\<lparr>paramValues = [\<lparr>paramId = 1, value = ''hi''\<rparr>], colors = []\<rparr>"
              "[Change 1 ''x'', Validate]"]
  by (simp add: mount_def initialValues_def rerender_def)

text \<open>
  C1 as stated fails: the editor is mounted with value \<open>hi\<close> for parameter 1, the host
  renders it again with a Model holding \<open>bye\<close> (the same \<open>colors\<close> array), the user types
  \<open>x\<close>, and the host calls \<open>reset()\<close>. The working values are then those of the later
  Model, not those of the Model of construction.
\<close>

theorem C1_counterexample:
  "values_state
     (run (mount [StringParam 1 ''Label'']
             \<lparr>paramValues = [\<lparr>paramId = 1, value = ''hi''\<rparr>], colors = []\<rparr>)
        [SetProps [StringParam 1 ''Label'']
           \<lparr>paramValues = [\<lparr>paramId = 1, value = ''bye''\<rparr>], colors = []\<rparr> True,
         Change 1 ''x'',
         HandleReset])
   = [\<lparr>paramId = 1, value = ''bye''\<rparr>]
   \<and> initialValues [StringParam 1 ''Label'']
         \<lparr>paramValues = [\<lparr>paramId = 1, value = ''hi''\<rparr>], colors = []\<rparr>
     = [\<lparr>paramId = 1, value = ''hi''\<rparr>]
   \<and> values_state
     (run (mount [StringParam 1 ''Label'']
             \<lparr>paramValues = [\<lparr>paramId = 1, value = ''hi''\<rparr>], colors = []\<rparr>)
        [SetProps [StringParam 1 ''Label'']
           \<lparr>paramValues = [\<lparr>paramId = 1, value = ''bye''\<rparr>], colors = []\<rparr> True,
         Change 1 ''x'',
         HandleReset])
   \<noteq> initialValues [StringParam 1 ''Label'']
         \<lparr>paramValues = [\<lparr>paramId = 1, value = ''hi''\<rparr>], colors = []\<rparr>"
  by (simp add: mount_def initialValues_def rerender_def)

subsection \<open>C2: Reset after any edits, props unchanged\<close>

text \<open>
  Claim C2: in a session whose props are unchanged since construction, Reset after any
  finite sequence of Change transitions yields exactly the initial snapshot. Proved for
  every history without a new render by the host (changes, validations and earlier
  resets, in any order), for the Reset button and for \<open>reset()\<close> on the handle; the
  snapshot is the state the session started with.
\<close>

theorem C2_reset_restores_snapshot:
  assumes "props_unchanged evs"
  shows "values_state (mount P M) = initialValues P M
         \<and> values_state (step (run (mount P M) evs) ResetButton) = values_state (mount P M)
         \<and> values_state (step (run (mount P M) evs) HandleReset) = values_state (mount P M)"
proof -
  have "props_params (run (mount P M) evs) = P" "props_model (run (mount P M) evs) = M"
    using latest_unchanged[OF assms] by (simp_all add: props_params_run props_model_run mount_props)
  then show ?thesis
    by (simp add: mount_props reset_after_unchanged[OF assms])
qed

theorem C2_reset_restores_snapshot_witness:
  "props_unchanged [Change 1 ''a'', Change 2 ''b'', Change 1 '''', Change 7 ''z'']
   \<and> values_state
       (step (run (mount [StringParam 1 ''Label'', NumberParam 2 ''Size'' (Some 0) (Some 10)]
                     \<lparr>paramValues = [\<lparr>paramId = 1, value = ''hi''\<rparr>], colors = []\<rparr>)
                [Change 1 ''a'', Change 2 ''b'', Change 1 '''', Change 7 ''z''])
          ResetButton)
     = [\<lparr>paramId = 1, value = ''hi''\<rparr>, \<lparr>paramId = 2, value = ''''\<rparr>]
   \<and> values_state
       (step (run (mount [StringParam 1 ''Label'', NumberParam 2 ''Size'' (Some 0) (Some 10)]
                     \<lparr>paramValues = [\<lparr>paramId = 1, value = ''hi''\<rparr>], colors = []\<rparr>)
                [Change 1 ''a'', Change 2 ''b'', Change 1 '''', Change 7 ''z''])
          HandleReset)
     = [\<lparr>paramId = 1, value = ''hi''\<rparr>, \<lparr>paramId = 2, value = ''''\<rparr>]"
proof -
  have h: "props_unchanged [Change 1 ''a'', Change 2 ''b'', Change 1 '''', Change 7 ''z'']"
    by simp
  show ?thesis
    using h C2_reset_restores_snapshot
          [OF h, of "[StringParam 1 ''Label'', NumberParam 2 ''Size'' (Some 0) (Some 10)]"
              "\<lparr>paramValues = [\<lparr>paramId = 1, value = ''hi''\<rparr>], colors = []\<rparr>"]
    by (simp add: mount_def initialValues_def rerender_def)
qed

subsection \<open>C3: the starting state\<close>

text \<open>
  Claim C3: the starting EditState has exactly one ParameterValue per parameter of the
  schema, in the schema's order; its value is that of the entry of \<open>M.paramValues\<close> with
  the parameter's id when there is one, and the empty string otherwise. Where several
  entries carry the id, \<open>find\<close> takes the first; where the ids of the Model are distinct,
  it is the one entry with that id.
\<close>

theorem C3_starting_state:
  "length (values_state (mount P M)) = length P
   \<and> map paramId (values_state (mount P M)) = map param_id P
   \<and> (\<forall>i<length P.
        (\<forall>pv\<in>set (paramValues M). paramId pv \<noteq> param_id (P ! i)) \<longrightarrow>
        value (values_state (mount P M) ! i) = [])
   \<and> (\<forall>i<length P. \<forall>pre pv post.
        paramValues M = pre @ pv # post \<and> paramId pv = param_id (P ! i) \<and>
        (\<forall>q\<in>set pre. paramId q \<noteq> param_id (P ! i)) \<longrightarrow>
        value (values_state (mount P M) ! i) = value pv)
   \<and> (\<forall>i<length P. \<forall>pv\<in>set (paramValues M).
        distinct (map paramId (paramValues M)) \<and> paramId pv = param_id (P ! i) \<longrightarrow>
        value (values_state (mount P M) ! i) = value pv)"
proof (intro conjI allI impI ballI)
  show "length (values_state (mount P M)) = length P"
    by (simp add: mount_props length_initialValues)
  show "map paramId (values_state (mount P M)) = map param_id P"
    by (simp add: mount_props ids_initialValues)
next
  fix i
  assume i: "i < length P"
    and none: "\<forall>pv\<in>set (paramValues M). paramId pv \<noteq> param_id (P ! i)"
  from none have "List.find (\<lambda>pv. paramId pv = param_id (P ! i)) (paramValues M) = None"
    by (simp add: find_None_iff)
  with i show "value (values_state (mount P M) ! i) = []"
    by (simp add: mount_props value_initialValues)
next
  fix i pre pv post
  assume i: "i < length P"
    and first: "paramValues M = pre @ pv # post \<and> paramId pv = param_id (P ! i) \<and>
        (\<forall>q\<in>set pre. paramId q \<noteq> param_id (P ! i))"
  then have "List.find (\<lambda>pv. paramId pv = param_id (P ! i)) (paramValues M) = Some pv"
    by (simp add: find_first_match)
  with i show "value (values_state (mount P M) ! i) = value pv"
    by (simp add: mount_props value_initialValues)
next
  fix i pv
  assume i: "i < length P" and pv: "pv \<in> set (paramValues M)"
    and d: "distinct (map paramId (paramValues M)) \<and> paramId pv = param_id (P ! i)"
  from pv obtain pre post where split: "paramValues M = pre @ pv # post"
    by (auto simp: in_set_conv_decomp)
  with d have "\<forall>q\<in>set pre. paramId q \<noteq> param_id (P ! i)"
    by force
  with split d
  have "List.find (\<lambda>pv. paramId pv = param_id (P ! i)) (paramValues M) = Some pv"
    by (simp add: find_first_match)
  with i show "value (values_state (mount P M) ! i) = value pv"
    by (simp add: mount_props value_initialValues)
qed

theorem C3_starting_state_witness:
  "values_state
     (mount [StringParam 1 ''Label'', NumberParam 2 ''Size'' None None,
             SelectParam 3 ''Kind'' [''a'', ''b'']]
        \<lparr>paramValues = [\<lparr>paramId = 3, value = ''b''\<rparr>, \<lparr>paramId = 1, value = ''hi''\<rparr>,
                        \<lparr>paramId = 3, value = ''a''\<rparr>],
         colors = []\<rparr>)
     = [\<lparr>paramId = 1, value = ''hi''\<rparr>, \<lparr>paramId = 2, value = ''''\<rparr>,
        \<lparr>paramId = 3, value = ''b''\<rparr>]
   \<and> (1::nat) < length [StringParam 1 ''Label'', NumberParam 2 ''Size'' None None,
                        SelectParam 3 ''Kind'' [''a'', ''b'']]
   \<and> 2 \<notin> paramId ` set [\<lparr>paramId = 3, value = ''b''\<rparr>, \<lparr>paramId = 1, value = ''hi''\<rparr>,
                           \<lparr>paramId = 3, value = ''a''\<rparr>]
   \<and> value (values_state
        (mount [StringParam 1 ''Label'', NumberParam 2 ''Size'' None None,
                SelectParam 3 ''Kind'' [''a'', ''b'']]
           \<lparr>paramValues = [\<lparr>paramId = 3, value = ''b''\<rparr>, \<lparr>paramId = 1, value = ''hi''\<rparr>,
                           \<lparr>paramId = 3, value = ''a''\<rparr>],
            colors = []\<rparr>) ! 1) = ''''
   \<and> (2::nat) < length [StringParam 1 ''Label'', NumberParam 2 ''Size'' None None,
                        SelectParam 3 ''Kind'' [''a'', ''b'']]
   \<and> value (values_state
        (mount [StringParam 1 ''Label'', NumberParam 2 ''Size'' None None,
                SelectParam 3 ''Kind'' [''a'', ''b'']]
           \<lparr>paramValues = [\<lparr>paramId = 3, value = ''b''\<rparr>, \<lparr>paramId = 1, value = ''hi''\<rparr>,
                           \<lparr>paramId = 3, value = ''a''\<rparr>],
            colors = []\<rparr>) ! 2) = ''b''"
  using C3_starting_state
          [of "[StringParam 1 ''Label'', NumberParam 2 ''Size'' None None,
                SelectParam 3 ''Kind'' [''a'', ''b'']]"
              "\<lparr>paramValues = [\<lparr>paramId = 3, value = ''b''\<rparr>, \<lparr>paramId = 1, value = ''hi''\<rparr>,
                        \<lparr>paramId = 3, value = ''a''\<rparr>],
                colors = []\<rparr>"]
  by (simp add: mount_def Let_def initialValues_def)

subsection \<open>C4: Change, then getModel\<close>

text \<open>
  Claim C4: after \<open>Change(id, v)\<close>, \<open>getModel().paramValues\<close> has value \<open>v\<close> at the entry
  for \<open>id\<close> and every other entry as it was, in the same order and number. It holds for
  every session state: as many entries, the same ids at the same positions, \<open>v\<close> at each
  position whose id is \<open>id\<close>, and the old entry at each other position. The handle read
  here is the one rebuilt by the render that follows the dispatch.
\<close>

theorem C4_change_then_getModel:
  "length (paramValues (getModel (handle (step s (Change pid v))))) = length (values_state s)
   \<and> map paramId (paramValues (getModel (handle (step s (Change pid v)))))
       = map paramId (values_state s)
   \<and> (\<forall>i<length (values_state s).
        paramId (values_state s ! i) = pid \<longrightarrow>
        value (paramValues (getModel (handle (step s (Change pid v)))) ! i) = v)
   \<and> (\<forall>i<length (values_state s).
        paramId (values_state s ! i) \<noteq> pid \<longrightarrow>
        paramValues (getModel (handle (step s (Change pid v)))) ! i = values_state s ! i)"
proof -
  have eq: "paramValues (getModel (handle (step s (Change pid v))))
              = reducer (values_state s) (CHANGE pid v)"
    by (simp add: getModel_after_dispatch)
  show ?thesis
    unfolding eq
    by (intro conjI allI impI)
       (simp_all only: reducer_CHANGE_length reducer_CHANGE_ids reducer_CHANGE_nth, simp_all)
qed

theorem C4_change_then_getModel_witness:
  "paramValues
     (getModel
        (handle
           (step (mount [StringParam 1 ''Label'', NumberParam 2 ''Size'' None None,
                         SelectParam 3 ''Kind'' [''a'', ''b'']]
                    \<lparr>paramValues = [\<lparr>paramId = 1, value = ''hi''\<rparr>,
                                    \<lparr>paramId = 3, value = ''a''\<rparr>],
                     colors = []\<rparr>)
              (Change 2 ''42''))))
   = [\<lparr>paramId = 1, value = ''hi''\<rparr>, \<lparr>paramId = 2, value = ''42''\<rparr>,
      \<lparr>paramId = 3, value = ''a''\<rparr>]"
  using C4_change_then_getModel
          [of "mount [StringParam 1 ''Label'', NumberParam 2 ''Size'' None None,
                      SelectParam 3 ''Kind'' [''a'', ''b'']]
                 \<lparr>paramValues = [\<lparr>paramId = 1, value = ''hi''\<rparr>,
                                 \<lparr>paramId = 3, value = ''a''\<rparr>],
                  colors = []\<rparr>" 2 "''42''"]
  by (simp add: mount_def Let_def initialValues_def rerender_def getModel_def)

subsection \<open>C5: Change with an id that matches no entry\<close>

text \<open>
  Claim C5: when \<open>paramId\<close> matches no entry of the EditState, \<open>Change(paramId, v)\<close> is a
  silent no-op for every \<open>v\<close>: the reducer returns a state equal to its input, and so do
  the session's working values and \<open>getModel().paramValues\<close>. The reducer has no failing
  branch: its result is a state on every input.
\<close>

theorem C5_change_unknown_id:
  assumes "\<forall>pv\<in>set (values_state s). paramId pv \<noteq> pid"
  shows "reducer (values_state s) (CHANGE pid v) = values_state s
         \<and> values_state (step s (Change pid v)) = values_state s
         \<and> paramValues (getModel (handle (step s (Change pid v)))) = values_state s"
  using reducer_CHANGE_absent[OF assms, of v]
  by (simp add: getModel_after_dispatch)

theorem C5_change_unknown_id_witness:
  "values_state
     (step (mount [StringParam 1 ''Label'']
              \<lparr>paramValues = [\<lparr>paramId = 1, value = ''hi''\<rparr>], colors = []\<rparr>)
        (Change 7 ''x''))
   = [\<lparr>paramId = 1, value = ''hi''\<rparr>]
   \<and> values_state
       (mount [StringParam 1 ''Label'']
          \<lparr>paramValues = [\<lparr>paramId = 1, value = ''hi''\<rparr>], colors = []\<rparr>)
     = [\<lparr>paramId = 1, value = ''hi''\<rparr>]"
proof -
  have h: "\<forall>pv\<in>set (values_state
                       (mount [StringParam 1 ''Label'']
                          \<lparr>paramValues = [\<lparr>paramId = 1, value = ''hi''\<rparr>], colors = []\<rparr>)).
             paramId pv \<noteq> 7"
    by (simp add: mount_def Let_def initialValues_def)
  show ?thesis
    using C5_change_unknown_id[OF h, of "''x''"]
    by (simp add: mount_def Let_def initialValues_def)
qed

subsection \<open>C6: validate is the required-field rule\<close>

text \<open>
  Claim C6: \<open>validate\<close> returns false exactly when some entry has the empty string as its
  value; the keys of the ErrorMap it produces are exactly the ids of the entries with
  an empty value, each mapped to \<open>Required field\<close>; and the result is a function of the
  working values alone, whatever the schema (types, min, max) and the Model are.
\<close>

theorem C6_validate_required_only:
  "(\<not> snd (validate vals)) = (\<exists>pv\<in>set vals. value pv = [])
   \<and> dom (fst (validate vals)) = {paramId pv | pv. pv \<in> set vals \<and> value pv = []}
   \<and> (\<forall>k\<in>dom (fst (validate vals)). fst (validate vals) k = Some ''Required field'')
   \<and> errors_state (step (s\<lparr>props_params := ps, props_model := m\<rparr>) Validate)
       = fst (validate (values_state s))"
proof (intro conjI ballI)
  show "(\<not> snd (validate vals)) = (\<exists>pv\<in>set vals. value pv = [])"
    unfolding validate_result validate_dom by auto
  show "dom (fst (validate vals)) = {paramId pv | pv. pv \<in> set vals \<and> value pv = []}"
    by (rule validate_dom)
  show "errors_state (step (s\<lparr>props_params := ps, props_model := m\<rparr>) Validate)
       = fst (validate (values_state s))"
    by simp
next
  fix k assume "k \<in> dom (fst (validate vals))"
  then show "fst (validate vals) k = Some ''Required field''"
    by (auto simp: validate_lookup split: if_splits)
qed

theorem C6_validate_required_only_witness:
  "\<not> snd (validate [\<lparr>paramId = 1, value = ''hi''\<rparr>, \<lparr>paramId = 2, value = ''''\<rparr>,
                     \<lparr>paramId = 3, value = ''999''\<rparr>])
   \<and> dom (fst (validate [\<lparr>paramId = 1, value = ''hi''\<rparr>, \<lparr>paramId = 2, value = ''''\<rparr>,
                          \<lparr>paramId = 3, value = ''999''\<rparr>])) = {2}
   \<and> fst (validate [\<lparr>paramId = 1, value = ''hi''\<rparr>, \<lparr>paramId = 2, value = ''''\<rparr>,
                     \<lparr>paramId = 3, value = ''999''\<rparr>]) 2 = Some ''Required field''
   \<and> errors_state
       (step (mount [NumberParam 3 ''Size'' (Some 0) (Some 10)]
                \<lparr>paramValues = [\<lparr>paramId = 3, value = ''999''\<rparr>], colors = []\<rparr>)
          Validate)
     = Map.empty"
  using C6_validate_required_only
          [where vals = "[\<lparr>paramId = 1, value = ''hi''\<rparr>, \<lparr>paramId = 2, value = ''''\<rparr>,
                          \<lparr>paramId = 3, value = ''999''\<rparr>]"
             and s = "mount [NumberParam 3 ''Size'' (Some 0) (Some 10)]
                \<lparr>paramValues = [\<lparr>paramId = 3, value = ''999''\<rparr>], colors = []\<rparr>"
             and ps = "[NumberParam 3 ''Size'' (Some 0) (Some 10)]"
             and m = "\<lparr>paramValues = [\<lparr>paramId = 3, value = ''999''\<rparr>], colors = []\<rparr>"]
  by (simp add: validate_def mount_def Let_def initialValues_def)

subsection \<open>C7: a Change clears the error of its parameter\<close>

text \<open>
  Claim C7: a \<open>Change(id, v)\<close> with a non-empty \<open>v\<close> removes the entry of \<open>id\<close> from the
  ErrorMap at once (no validation runs) and leaves the entries of all other ids as they
  were.
\<close>

theorem C7_change_clears_error:
  assumes "v \<noteq> []"
  shows "errors_state (step s (Change pid v)) pid = None
         \<and> (\<forall>k. k \<noteq> pid \<longrightarrow> errors_state (step s (Change pid v)) k = errors_state s k)
         \<and> dom (errors_state (step s (Change pid v))) = dom (errors_state s) - {pid}"
proof -
  have after: "errors_state (step s (Change pid v)) = (errors_state s)(pid := None)"
    by simp
  show ?thesis
  proof (intro conjI allI impI)
    show "errors_state (step s (Change pid v)) pid = None"
      unfolding after by simp
    show "errors_state (step s (Change pid v)) k = errors_state s k" if "k \<noteq> pid" for k
      unfolding after using that by simp
    show "dom (errors_state (step s (Change pid v))) = dom (errors_state s) - {pid}"
      unfolding after by simp
  qed
qed

theorem C7_change_clears_error_witness:
  "''x'' \<noteq> []
   \<and> errors_state
       (run (mount [StringParam 1 ''Label'', StringParam 2 ''Unit'']
               \<lparr>paramValues = [\<lparr>paramId = 1, value = ''hi''\<rparr>], colors = []\<rparr>)
          [Change 1 '''', Validate]) 1 = Some ''Required field''
   \<and> errors_state
       (step (run (mount [StringParam 1 ''Label'', StringParam 2 ''Unit'']
                     \<lparr>paramValues = [\<lparr>paramId = 1, value = ''hi''\<rparr>], colors = []\<rparr>)
                [Change 1 '''', Validate])
          (Change 1 ''x'')) 1 = None
   \<and> errors_state
       (step (run (mount [StringParam 1 ''Label'', StringParam 2 ''Unit'']
                     \<lparr>paramValues = [\<lparr>paramId = 1, value = ''hi''\<rparr>], colors = []\<rparr>)
                [Change 1 '''', Validate])
          (Change 1 ''x'')) 2 = Some ''Required field''"
proof -
  have h: "''x'' \<noteq> []" by simp
  show ?thesis
    using C7_change_clears_error
            [OF h, of "run (mount [StringParam 1 ''Label'', StringParam 2 ''Unit'']
                     \<lparr>paramValues = [\<lparr>paramId = 1, value = ''hi''\<rparr>], colors = []\<rparr>)
                [Change 1 '''', Validate]" 1]
    by (simp add: validate_def mount_def Let_def initialValues_def)
qed

subsection \<open>C8: the colors are passed through\<close>

text \<open>
  Claim C8 says that \<open>getModel().colors\<close> equals the colors of the Model of construction
  at every point of a session. The handle is rebuilt with \<open>model.colors\<close> among its
  dependencies, so it follows the Model the host supplies. What holds (C8 as amended):
  at every point of a session, \<open>getModel().colors\<close> equals the colors of the Model most
  recently supplied by the host; no event of the editor (Change, Reset, validate)
  changes it, so it equals the colors of the Model of construction for as long as the
  host supplies no other props. The hypothesis says that the host does not change an
  array in place.
\<close>

theorem C8_colors_follow_the_model:
  "(host_consistent M evs \<longrightarrow>
      colors (getModel (handle (run (mount P M) evs))) = colors (latest_model M evs))
   \<and> (props_unchanged evs \<longrightarrow>
        colors (getModel (handle (run (mount P M) evs))) = colors M)"
proof -
  have latest: "colors (getModel (handle (run (mount P M) evs))) = colors (latest_model M evs)"
    if ok: "host_consistent M evs"
  proof -
    have "colors (closure_model (handle (mount P M))) = colors (props_model (mount P M))"
      by (simp add: mount_def Let_def)
    moreover have "host_consistent (props_model (mount P M)) evs"
      using ok by (simp add: mount_props)
    ultimately
    have "colors (closure_model (handle (run (mount P M) evs)))
            = colors (props_model (run (mount P M) evs))"
      by (rule handle_colors_run)
    then show ?thesis
      by (simp add: getModel_def props_model_run mount_props)
  qed
  have "colors (getModel (handle (run (mount P M) evs))) = colors M"
    if same: "props_unchanged evs"
    using latest[OF props_unchanged_consistent[OF same]] latest_unchanged[OF same, of P M]
    by simp
  with latest show ?thesis by blast
qed

theorem C8_colors_follow_the_model_witness:
  "host_consistent \<lparr>paramValues = [\<lparr>paramId = 1, value = ''hi''\<rparr>], colors = []\<rparr>
     [Change 1 ''x'',
      SetProps [StringParam 1 ''Label'']
        \<lparr>paramValues = [\<lparr>paramId = 1, value = ''hi''\<rparr>],
         colors = [\<lparr>color_id = 1, color_name = ''red'', hex = ''#f00''\<rparr>]\<rparr> False,
      Validate, HandleReset]
   \<and> colors (getModel (handle
        (run (mount [StringParam 1 ''Label'']
                \<lparr>paramValues = [\<lparr>paramId = 1, value = ''hi''\<rparr>], colors = []\<rparr>)
           [Change 1 ''x'',
            SetProps [StringParam 1 ''Label'']
              \<lparr>paramValues = [\<lparr>paramId = 1, value = ''hi''\<rparr>],
               colors = [\<lparr>color_id = 1, color_name = ''red'', hex = ''#f00''\<rparr>]\<rparr> False,
            Validate, HandleReset])))
     = [\<lparr>color_id = 1, color_name = ''red'', hex = ''#f00''\<rparr>]
   \<and> props_unchanged [Change 1 ''x'', Validate, ResetButton, Change 1 '''', HandleReset]
   \<and> colors (getModel (handle
        (run (mount [StringParam 1 ''Label'']
                \<lparr>paramValues = [\<lparr>paramId = 1, value = ''hi''\<rparr>],
                 colors = [\<lparr>color_id = 1, color_name = ''red'', hex = ''#f00''\<rparr>]\<rparr>)
           [Change 1 ''x'', Validate, ResetButton, Change 1 '''', HandleReset])))
     = [\<lparr>color_id = 1, color_name = ''red'', hex = ''#f00''\<rparr>]"
  using C8_colors_follow_the_model
          [where M = "\<lparr>paramValues = [\<lparr>paramId = 1, value = ''hi''\<rparr>], colors = []\<rparr>"
             and P = "[StringParam 1 ''Label'']"
             and evs = "[Change 1 ''x'',
                         SetProps [StringParam 1 ''Label'']
                           \<lparr>paramValues = [\<lparr>paramId = 1, value = ''hi''\<rparr>],
                            colors = [\<lparr>color_id = 1, color_name = ''red'',
                                       hex = ''#f00''\<rparr>]\<rparr> False,
                         Validate, HandleReset]"]
        C8_colors_follow_the_model
          [where M = "\<lparr>paramValues = [\<lparr>paramId = 1, value = ''hi''\<rparr>],
                       colors = [\<lparr>color_id = 1, color_name = ''red'', hex = ''#f00''\<rparr>]\<rparr>"
             and P = "[StringParam 1 ''Label'']"
             and evs = "[Change 1 ''x'', Validate, ResetButton, Change 1 '''', HandleReset]"]
  by simp

text \<open>
  C8 as stated fails: the editor is mounted with no colors and the host renders it again
  with a Model holding one color (another array). \<open>getModel().colors\<close> is then that one
  color, not the empty collection of the Model of construction.
\<close>

theorem C8_counterexample:
  "colors (getModel (handle
      (run (mount [StringParam 1 ''Label'']
              \<lparr>paramValues = [\<lparr>paramId = 1, value = ''hi''\<rparr>], colors = []\<rparr>)
         [SetProps [StringParam 1 ''Label'']
            \<lparr>paramValues = [\<lparr>paramId = 1, value = ''hi''\<rparr>],
             colors = [\<lparr>color_id = 1, color_name = ''red'', hex = ''#f00''\<rparr>]\<rparr> False])))
   = [\<lparr>color_id = 1, color_name = ''red'', hex = ''#f00''\<rparr>]
   \<and> colors (getModel (handle
      (run (mount [StringParam 1 ''Label'']
              \<lparr>paramValues = [\<lparr>paramId = 1, value = ''hi''\<rparr>], colors = []\<rparr>)
         [SetProps [StringParam 1 ''Label'']
            \<lparr>paramValues = [\<lparr>paramId = 1, value = ''hi''\<rparr>],
             colors = [\<lparr>color_id = 1, color_name = ''red'', hex = ''#f00''\<rparr>]\<rparr> False])))
   \<noteq> colors \<lparr>paramValues = [\<lparr>paramId = 1, value = ''hi''\<rparr>], colors = []\<rparr>"
  by (simp add: mount_def Let_def rerender_def getModel_def)

subsection \<open>C9: the renderer registry\<close>

text \<open>
  Claim C9: the effective registry is the union of the built-in mapping
  \<open>{string, number, select}\<close> with the caller's mapping; the caller's entry wins on a tag
  both have, and a tag the caller leaves out keeps its built-in. With an override for
  \<open>string\<close> only, \<open>number\<close> and \<open>select\<close> parameters resolve to the built-ins and \<open>string\<close>
  parameters to the override.
\<close>

theorem C9_renderer_merge:
  "useRenders (Some (ov :: string \<rightharpoonup> 'c Renderer)) t
     = (case ov t of Some r \<Rightarrow> Some r | None \<Rightarrow> defaultRenderers t)
   \<and> dom (useRenders (Some ov)) = {''string'', ''number'', ''select''} \<union> dom ov
   \<and> useRenders None t = (defaultRenderers :: string \<rightharpoonup> 'c Renderer) t
   \<and> dispatch_renderer (Some [''string'' \<mapsto> r]) (StringParam i n) = Some r
   \<and> dispatch_renderer (Some [''string'' \<mapsto> r]) (NumberParam j m lo hi)
       = Some NumberParamEditor
   \<and> dispatch_renderer (Some [''string'' \<mapsto> r]) (SelectParam k l opts)
       = Some SelectParamEditor"
proof (intro conjI)
  show "useRenders (Some ov) t = (case ov t of Some r \<Rightarrow> Some r | None \<Rightarrow> defaultRenderers t)"
    by (simp add: useRenders_def map_add_def split: option.split)
  show "dom (useRenders (Some ov)) = {''string'', ''number'', ''select''} \<union> dom ov"
    by (auto simp: useRenders_def defaultRenderers_def)
  show "useRenders None t = (defaultRenderers :: string \<rightharpoonup> 'c Renderer) t"
    by (simp add: useRenders_def)
  show "dispatch_renderer (Some [''string'' \<mapsto> r]) (StringParam i n) = Some r"
    by (simp add: dispatch_renderer_def useRenders_def)
  show "dispatch_renderer (Some [''string'' \<mapsto> r]) (NumberParam j m lo hi)
       = Some NumberParamEditor"
    by (simp add: dispatch_renderer_def useRenders_def defaultRenderers_def map_add_def)
  show "dispatch_renderer (Some [''string'' \<mapsto> r]) (SelectParam k l opts)
       = Some SelectParamEditor"
    by (simp add: dispatch_renderer_def useRenders_def defaultRenderers_def map_add_def)
qed

theorem C9_renderer_merge_witness:
  "dispatch_renderer (Some [''string'' \<mapsto> CallerRenderer ''MyInput''])
     (StringParam 1 ''Label'') = Some (CallerRenderer ''MyInput'')
   \<and> dispatch_renderer (Some [''string'' \<mapsto> CallerRenderer ''MyInput''])
       (NumberParam 2 ''Size'' (Some 0) (Some 10)) = Some NumberParamEditor
   \<and> dispatch_renderer (Some [''string'' \<mapsto> CallerRenderer ''MyInput''])
       (SelectParam 3 ''Kind'' [''a'', ''b'']) = Some SelectParamEditor
   \<and> dom (useRenders (Some [''string'' \<mapsto> CallerRenderer ''MyInput'']))
       = {''string'', ''number'', ''select''}"
  using C9_renderer_merge
          [where ov = "[''string'' \<mapsto> CallerRenderer ''MyInput'']" and t = "''string''"
             and r = "CallerRenderer ''MyInput''"
             and i = 1 and n = "''Label''"
             and j = 2 and m = "''Size''" and lo = "Some 0" and hi = "Some 10"
             and k = 3 and l = "''Kind''" and opts = "[''a'', ''b'']"]
  by simp

subsection \<open>C10: the error is cleared whatever the new value\<close>

text \<open>
  Claim C10: when the ErrorMap has an entry for \<open>id\<close>, a \<open>Change(id, v)\<close> removes it for
  every \<open>v\<close>, the empty string included; the entry stays absent through every later
  history without a validation, and the next validation brings it back when the field is
  still empty.
\<close>

theorem C10_change_clears_error_for_any_value:
  assumes "errors_state s pid = Some msg"
  shows "errors_state (step s (Change pid v)) pid = None
         \<and> errors_state (step s (Change pid [])) pid = None
         \<and> (no_validate evs \<longrightarrow>
              errors_state (run (step s (Change pid [])) evs) pid = None)
         \<and> (pid \<in> paramId ` set (values_state s) \<longrightarrow>
              errors_state (step (step s (Change pid [])) Validate) pid
                = Some ''Required field'')"
proof (intro conjI impI)
  show "errors_state (step s (Change pid v)) pid = None" by simp
  show none: "errors_state (step s (Change pid [])) pid = None" by simp
  show "errors_state (run (step s (Change pid [])) evs) pid = None" if "no_validate evs"
    using none that by (rule errors_run_None)
  show "errors_state (step (step s (Change pid [])) Validate) pid = Some ''Required field''"
    if "pid \<in> paramId ` set (values_state s)"
    using validate_after_empty[OF that] by simp
qed

theorem C10_change_clears_error_for_any_value_witness:
  "errors_state
       (run (mount [StringParam 1 ''Label'']
               \<lparr>paramValues = [\<lparr>paramId = 1, value = ''hi''\<rparr>], colors = []\<rparr>)
          [Change 1 '''', Validate]) 1 = Some ''Required field''
   \<and> errors_state
       (step (run (mount [StringParam 1 ''Label'']
                     \<lparr>paramValues = [\<lparr>paramId = 1, value = ''hi''\<rparr>], colors = []\<rparr>)
                [Change 1 '''', Validate])
          (Change 1 '''')) 1 = None
   \<and> value (hd (values_state
       (step (run (mount [StringParam 1 ''Label'']
                     \<lparr>paramValues = [\<lparr>paramId = 1, value = ''hi''\<rparr>], colors = []\<rparr>)
                [Change 1 '''', Validate])
          (Change 1 '''')))) = ''''
   \<and> no_validate [ResetButton, Change 1 '''']
   \<and> errors_state
       (run (step (run (mount [StringParam 1 ''Label'']
                     \<lparr>paramValues = [\<lparr>paramId = 1, value = ''hi''\<rparr>], colors = []\<rparr>)
                [Change 1 '''', Validate])
          (Change 1 '''')) [ResetButton, Change 1 '''']) 1 = None"
proof -
  have h: "errors_state
       (run (mount [StringParam 1 ''Label'']
               \<lparr>paramValues = [\<lparr>paramId = 1, value = ''hi''\<rparr>], colors = []\<rparr>)
          [Change 1 '''', Validate]) 1 = Some ''Required field''"
    by (simp add: validate_def mount_def Let_def initialValues_def)
  show ?thesis
    using h C10_change_clears_error_for_any_value
            [OF h, of "''''" "[ResetButton, Change 1 '''']"]
    by (simp add: validate_def mount_def Let_def initialValues_def)
qed

end
